theory Spec2Isabelle
  imports Main
begin

section \<open>Strings and paths as the Go standard library computes them\<close>

text \<open>
  A Go string is a sequence of bytes, here a \<^typ>\<open>string\<close>. The functions of this
  section stand for the calls the package makes into \<^verbatim>\<open>strings\<close> and
  \<^verbatim>\<open>path/filepath\<close> (Unix separators).
\<close>

definition HasPrefix :: "string \<Rightarrow> string \<Rightarrow> bool" where
  "HasPrefix s pre = (length pre \<le> length s \<and> take (length pre) s = pre)"

definition HasSuffix :: "string \<Rightarrow> string \<Rightarrow> bool" where
  "HasSuffix s suf = (length suf \<le> length s \<and> drop (length s - length suf) s = suf)"

fun Contains :: "string \<Rightarrow> string \<Rightarrow> bool" where
  "Contains [] sub = (sub = [])"
| "Contains (c # cs) sub = (HasPrefix (c # cs) sub \<or> Contains cs sub)"

text \<open>
  \<^verbatim>\<open>strings.ToLower\<close>, on the letters A to Z. Every other byte is kept: the patterns
  the package compares a lowered name with are ASCII, and no rune outside ASCII lowers
  to one of their letters.
\<close>

definition lowerByte :: "char \<Rightarrow> char" where
  "lowerByte c =
     (case map_of (zip ''ABCDEFGHIJKLMNOPQRSTUVWXYZ'' ''abcdefghijklmnopqrstuvwxyz'') c of
        Some l \<Rightarrow> l
      | None \<Rightarrow> c)"

definition ToLower :: "string \<Rightarrow> string" where
  "ToLower s = map lowerByte s"

definition TrimPrefix :: "string \<Rightarrow> string \<Rightarrow> string" where
  "TrimPrefix s pre = (if HasPrefix s pre then drop (length pre) s else s)"

text \<open>\<^verbatim>\<open>strings.Trim(s, cutset)\<close>: the bytes of the cutset are removed at both ends.\<close>

definition Trim :: "string \<Rightarrow> string \<Rightarrow> string" where
  "Trim s cutset =
     rev (dropWhile (\<lambda>c. c \<in> set cutset) (rev (dropWhile (\<lambda>c. c \<in> set cutset) s)))"

fun splitSlash :: "string \<Rightarrow> string list" where
  "splitSlash [] = [[]]"
| "splitSlash (c # cs) =
     (if c = CHR ''/'' then [] # splitSlash cs
      else (case splitSlash cs of
              [] \<Rightarrow> [[c]]
            | w # ws \<Rightarrow> (c # w) # ws))"

fun joinSlash :: "string list \<Rightarrow> string" where
  "joinSlash [] = []"
| "joinSlash [e] = e"
| "joinSlash (e # es) = e @ ''/'' @ joinSlash es"

text \<open>
  \<^verbatim>\<open>filepath.Clean\<close>, element by element: empty elements and \<^verbatim>\<open>.\<close> are dropped, a
  \<^verbatim>\<open>..\<close> removes the element before it, is dropped at the root, and is kept at the
  head of a path that is not rooted. The empty result is \<^verbatim>\<open>.\<close>.
\<close>

definition cleanStep :: "bool \<Rightarrow> string list \<Rightarrow> string \<Rightarrow> string list" where
  "cleanStep rooted out e =
     (if e = [] \<or> e = ''.'' then out
      else if e = ''..'' then
        (if out \<noteq> [] \<and> last out \<noteq> ''..'' then butlast out
         else if rooted then out
         else out @ [''..''])
      else out @ [e])"

definition Clean :: "string \<Rightarrow> string" where
  "Clean path =
     (if path = [] then ''.''
      else
        let rooted = (hd path = CHR ''/'');
            s = joinSlash (foldl (cleanStep rooted) [] (splitSlash path))
        in if rooted then CHR ''/'' # s
           else if s = [] then ''.''
           else s)"

text \<open>\<^verbatim>\<open>filepath.Join\<close>: the elements from the first non-empty one on, joined and cleaned.\<close>

definition Join :: "string list \<Rightarrow> string" where
  "Join elem =
     (case dropWhile (\<lambda>e. e = []) elem of
        [] \<Rightarrow> []
      | es \<Rightarrow> Clean (joinSlash es))"

definition lastElem :: "string \<Rightarrow> string" where
  "lastElem path = rev (takeWhile (\<lambda>c. c \<noteq> CHR ''/'') (rev path))"

definition Base :: "string \<Rightarrow> string" where
  "Base path =
     (if path = [] then ''.''
      else
        let p = lastElem (rev (dropWhile (\<lambda>c. c = CHR ''/'') (rev path)))
        in if p = [] then ''/'' else p)"

definition Dir :: "string \<Rightarrow> string" where
  "Dir path = Clean (rev (dropWhile (\<lambda>c. c \<noteq> CHR ''/'') (rev path)))"

definition Ext :: "string \<Rightarrow> string" where
  "Ext path =
     (let e = lastElem path
      in if CHR ''.'' \<in> set e
         then CHR ''.'' # rev (takeWhile (\<lambda>c. c \<noteq> CHR ''.'') (rev e))
         else [])"

section \<open>The data model of package \<^verbatim>\<open>node\<close>\<close>

datatype FileType = Library | Test | Binary

text \<open>
  \<^verbatim>\<open>ImportType\<close> with the four constants of \<^verbatim>\<open>import.go\<close>. The revision of the file
  that also defines \<^verbatim>\<open>ResolveRelativeImport\<close> declares the first three only; there
  the fourth value is one that its \<^verbatim>\<open>switch\<close> sends to \<^verbatim>\<open>default\<close>.
\<close>

datatype ImportType = RelativeImport | BareImport | BuiltinImport | AssetImport

record Import =
  Path :: string
  ImportedName :: string
  Type :: ImportType
  IsDefault :: bool

record File =
  Name :: string
  FileName :: string
  Imports :: "Import list"
  FileType :: FileType
  HasDefault :: bool

section \<open>File roles\<close>

definition classifyFileType :: "string \<Rightarrow> string \<Rightarrow> FileType" where
  "classifyFileType filename content =
     (let base = ToLower filename in
      if Contains base ''.test.'' \<or> Contains base ''.spec.'' \<or>
         HasSuffix base ''_test.js'' \<or> HasSuffix base ''_test.ts'' \<or>
         HasSuffix base ''.test.js'' \<or> HasSuffix base ''.test.ts'' \<or>
         HasSuffix base ''.spec.js'' \<or> HasSuffix base ''.spec.ts''
      then Test
      else if length content > 2 \<and> take 2 content = ''#!'' then Binary
      else Library)"

section \<open>Import kinds\<close>

text \<open>
  Modelled from the spec: \<^verbatim>\<open>IsNodeBuiltin\<close> (\<^verbatim>\<open>builtins.go\<close>) and its table of module
  names are not among the sources; only its test is. Following section 4.2 of the
  specification, a path is builtin when, with a leading \<^verbatim>\<open>node:\<close> removed, it is a name
  of the allow-list or such a name followed by \<^verbatim>\<open>/\<close> and a submodule. The comparison
  is equality of bytes. The allow-list is a parameter.
\<close>

definition IsNodeBuiltin :: "string list \<Rightarrow> string \<Rightarrow> bool" where
  "IsNodeBuiltin allow modulePath =
     (let name = TrimPrefix modulePath ''node:''
      in list_ex (\<lambda>b. name = b \<or> HasPrefix name (b @ ''/'')) allow)"

definition isRelativePath :: "string \<Rightarrow> bool" where
  "isRelativePath importPath =
     (HasPrefix importPath ''./'' \<or> HasPrefix importPath ''../'' \<or>
      importPath = ''.'' \<or> importPath = ''..'')"

text \<open>
  \<^verbatim>\<open>classifyImportType\<close> as in the revision that goes with \<^verbatim>\<open>ResolveRelativeImport\<close>
  and \<^verbatim>\<open>ResolveDependency\<close>. The builtin test is the function's first argument.
\<close>

definition classifyImportType :: "(string \<Rightarrow> bool) \<Rightarrow> string \<Rightarrow> ImportType" where
  "classifyImportType isBuiltin importPath =
     (if isBuiltin importPath then BuiltinImport
      else if HasPrefix importPath ''./'' \<or> HasPrefix importPath ''../'' \<or>
              importPath = ''.'' \<or> importPath = ''..'' then RelativeImport
      else BareImport)"

text \<open>
  \<^verbatim>\<open>classifyImportType\<close> as \<^verbatim>\<open>import.go\<close> has it, with the branch for asset
  extensions between the relative and the bare case.
\<close>

definition classifyImportType_asset :: "(string \<Rightarrow> bool) \<Rightarrow> string \<Rightarrow> ImportType" where
  "classifyImportType_asset isBuiltin importPath =
     (if isBuiltin importPath then BuiltinImport
      else if HasPrefix importPath ''./'' \<or> HasPrefix importPath ''../'' \<or>
              importPath = ''.'' \<or> importPath = ''..'' then RelativeImport
      else
        let ext = Ext importPath in
        if ext = ''.css'' \<or> ext = ''.scss'' \<or> ext = ''.less'' \<or> ext = ''.json'' \<or>
           ext = ''.png'' \<or> ext = ''.jpg'' \<or> ext = ''.svg'' \<or> ext = ''.gif''
        then AssetImport
        else BareImport)"

section \<open>Errors and collaborators\<close>

text \<open>
  Each \<^verbatim>\<open>fmt.Errorf\<close> of the package is a constructor that carries the values
  the message is formatted from, and the wrapped error where there is one.
  \<^verbatim>\<open>OsError\<close> is an error that comes from the operating system or a library.
\<close>

datatype error =
    OsError string
  | EmptyImportPath
  | CouldNotResolve string string
  | NotRelativeImport string
  | ResolvingRelativeImport string error
  | FindingPackageTarget string error
  | BareNotImplemented string
  | UnknownImportType string
  | ParsingFile string error
  | ReadingFile error
  | ParsingLang string error

text \<open>
  What \<^verbatim>\<open>os.Stat\<close> says of a path: no error, an error for which
  \<^verbatim>\<open>os.IsNotExist\<close> holds, or another error.
\<close>

datatype StatResult = StatOK | StatNotExist | StatFailed

type_synonym stat = "string \<Rightarrow> StatResult"

text \<open>A file system in which exactly the listed paths exist.\<close>

definition statOf :: "string list \<Rightarrow> stat" where
  "statOf paths p = (if p \<in> set paths then StatOK else StatNotExist)"

text \<open>
  A tree on disk, given by the absolute paths of its regular files. A path exists when it
  is one of the files, a directory above one of them, or the root. \<^verbatim>\<open>os.Stat\<close> fails
  with \<^verbatim>\<open>ENOTDIR\<close>, which is not a not-exist error, on a path that runs through one of
  the regular files. Nothing else exists.
\<close>

definition statTree :: "string list \<Rightarrow> stat" where
  "statTree files p =
     (if p \<in> set files \<or> p = ''/'' \<or> list_ex (\<lambda>f. HasPrefix f (p @ ''/'')) files then StatOK
      else if list_ex (\<lambda>f. HasPrefix p (f @ ''/'')) files then StatFailed
      else StatNotExist)"

section \<open>Resolving relative imports\<close>

fun tryExtensions :: "stat \<Rightarrow> string \<Rightarrow> string list \<Rightarrow> string option" where
  "tryExtensions st base [] = None"
| "tryExtensions st base (ext # exts) =
     (if st (base @ ext) = StatOK then Some (base @ ext)
      else tryExtensions st base exts)"

definition ResolveRelativeImport :: "stat \<Rightarrow> string \<Rightarrow> string \<Rightarrow> error + string" where
  "ResolveRelativeImport st currentDir importPath =
     (if importPath = [] then Inl EmptyImportPath
      else if HasPrefix importPath ''./'' \<or> HasPrefix importPath ''../'' \<or>
              importPath = ''.'' \<or> importPath = ''..'' then
        let absPath = Join [currentDir, importPath];
            cleanPath = Clean absPath
        in if st cleanPath = StatNotExist then
             (case tryExtensions st cleanPath
                     [''.js'', ''.ts'', ''.jsx'', ''.tsx'', ''.mjs'', ''.cjs''] of
                Some found \<Rightarrow> Inr found
              | None \<Rightarrow>
                  let indexPath = Join [cleanPath, ''index'']
                  in (case tryExtensions st indexPath
                             [''.js'', ''.ts'', ''.jsx'', ''.tsx'', ''.mjs'', ''.cjs''] of
                        Some found \<Rightarrow> Inr found
                      | None \<Rightarrow> Inl (CouldNotResolve importPath currentDir)))
           else Inr cleanPath
      else Inl (NotRelativeImport importPath))"

definition FindPackageTarget :: "stat \<Rightarrow> string \<Rightarrow> error + string" where
  "FindPackageTarget st dir =
     (let buildFile = Join [dir, ''BUILD'']
      in if st buildFile = StatNotExist then Inr []
         else
           let packageName = Base dir
           in Inr (''//'' @ packageName))"

text \<open>
  \<^verbatim>\<open>ResolveDependency\<close>; its receiver is not read. The last equation is the
  \<^verbatim>\<open>default\<close> of the \<^verbatim>\<open>switch\<close>.
\<close>

fun ResolveDependency :: "stat \<Rightarrow> Import \<Rightarrow> string \<Rightarrow> error + string" where
  "ResolveDependency st imp currentDir =
     (case Type imp of
        BuiltinImport \<Rightarrow> Inr []
      | RelativeImport \<Rightarrow>
          (case ResolveRelativeImport st currentDir (Path imp) of
             Inl err \<Rightarrow> Inl (ResolvingRelativeImport (Path imp) err)
           | Inr resolvedPath \<Rightarrow>
               let targetDir =
                     (if \<not> HasSuffix resolvedPath ''/'' then Dir resolvedPath
                      else resolvedPath)
               in (case FindPackageTarget st targetDir of
                     Inl err \<Rightarrow> Inl (FindingPackageTarget targetDir err)
                   | Inr target \<Rightarrow> Inr target))
      | BareImport \<Rightarrow> Inl (BareNotImplemented (Path imp))
      | AssetImport \<Rightarrow> Inl (UnknownImportType (Path imp)))"

text \<open>
  Modelled from the spec: the rule synthesizer, which turns the resolved imports of a
  package unit into the dependency list of its rule, is not among the sources. Following
  section 4.5 of the specification, the dependency set of a rule is the union of the
  resolved targets over the imports of its files, without the empty target, and without
  duplicates; an import that does not resolve adds no target. The list is built in the
  order of the imports.
\<close>

fun collectTargets :: "stat \<Rightarrow> string \<Rightarrow> Import list \<Rightarrow> string list \<Rightarrow> string list" where
  "collectTargets st currentDir [] deps = deps"
| "collectTargets st currentDir (imp # imps) deps =
     (case ResolveDependency st imp currentDir of
        Inl err \<Rightarrow> collectTargets st currentDir imps deps
      | Inr target \<Rightarrow>
          if target = [] \<or> target \<in> set deps then collectTargets st currentDir imps deps
          else collectTargets st currentDir imps (deps @ [target]))"

definition dependencySet :: "stat \<Rightarrow> string \<Rightarrow> Import list \<Rightarrow> string list" where
  "dependencySet st currentDir imps = collectTargets st currentDir imps []"

section \<open>Parsing the files of a directory\<close>

text \<open>
  A call in Go returns or panics. A panic is not an error value: it leaves every caller
  that does not recover, and no function of the package recovers.
\<close>

datatype 'a outcome = Returned 'a | Panicked string

definition andThen :: "'a outcome \<Rightarrow> ('a \<Rightarrow> 'b outcome) \<Rightarrow> 'b outcome" where
  "andThen m f = (case m of Returned x \<Rightarrow> f x | Panicked msg \<Rightarrow> Panicked msg)"

text \<open>A \<^verbatim>\<open>for\<close> loop over a list whose body may panic, with the variables it updates.\<close>

fun forEach :: "('s \<Rightarrow> 'a \<Rightarrow> 's outcome) \<Rightarrow> 's \<Rightarrow> 'a list \<Rightarrow> 's outcome" where
  "forEach body s [] = Returned s"
| "forEach body s (x # xs) =
     (case body s x of
        Returned s' \<Rightarrow> forEach body s' xs
      | Panicked msg \<Rightarrow> Panicked msg)"

text \<open>
  The syntax tree is the parser library's. A node has a type, a byte range and children.
  The library's \<^verbatim>\<open>Content\<close> is the slice expression
  \<^verbatim>\<open>string(input[n.StartByte():n.EndByte()])\<close>, which panics when the range does not fit
  the buffer; the capacity of a buffer is taken to be its length, and \<^verbatim>\<open>nil\<close> is the
  empty buffer.
\<close>

datatype Node = Node (nodeType: string) (startByte: nat) (endByte: nat) (children: "Node list")

definition Content :: "Node \<Rightarrow> string \<Rightarrow> string outcome" where
  "Content node input =
     (if startByte node \<le> endByte node \<and> endByte node \<le> length input
      then Returned (take (endByte node - startByte node) (drop (startByte node) input))
      else Panicked ''slice bounds out of range'')"

datatype Lang = JavaScript | TypeScript | TSX

record DirEntry =
  entryName :: string
  isRegular :: bool

text \<open>
  The calls that read the disk and run the parser are collaborators, gathered in a
  record. \<^verbatim>\<open>Classify\<close> is the call of \<^verbatim>\<open>classifyImportType\<close>, which differs between
  the two revisions of the file: \<^const>\<open>classifyImportType_asset\<close> in \<^verbatim>\<open>import.go\<close>,
  \<^const>\<open>classifyImportType\<close> in the revision with the resolver, each with the builtin
  test.
\<close>

record Env =
  ReadDir :: "string \<Rightarrow> error + DirEntry list"
  ReadFile :: "string \<Rightarrow> error + string"
  ParseCtx :: "Lang \<Rightarrow> string \<Rightarrow> error + Node"
  Classify :: "string \<Rightarrow> ImportType"

definition isJavaScriptFile :: "string \<Rightarrow> bool" where
  "isJavaScriptFile filename =
     (let ext = Ext filename
      in ext = ''.js'' \<or> ext = ''.jsx'' \<or> ext = ''.ts'' \<or> ext = ''.tsx'' \<or>
         ext = ''.mjs'' \<or> ext = ''.cjs'')"

definition inferPackageName :: "string \<Rightarrow> string" where
  "inferPackageName dir = Base dir"

definition firstIdentifier :: "Node \<Rightarrow> Node option" where
  "firstIdentifier node = find (\<lambda>g. nodeType g = ''identifier'') (children node)"

definition extractNamedImports :: "Node \<Rightarrow> string \<Rightarrow> string list \<Rightarrow> string list outcome" where
  "extractNamedImports node source names =
     forEach (\<lambda>ns child.
                if nodeType child = ''import_specifier'' then
                  (case firstIdentifier child of
                     Some grandchild \<Rightarrow>
                       andThen (Content grandchild source) (\<lambda>name. Returned (ns @ [name]))
                   | None \<Rightarrow> Returned ns)
                else Returned ns)
             names (children node)"

definition extractImportClause :: "Node \<Rightarrow> string \<Rightarrow> (string list \<times> bool) outcome" where
  "extractImportClause node source =
     forEach (\<lambda>(names, hasDefault) child.
                if nodeType child = ''identifier'' then
                  andThen (Content child source) (\<lambda>name. Returned (names @ [name], True))
                else if nodeType child = ''namespace_import'' then
                  (case firstIdentifier child of
                     Some grandchild \<Rightarrow>
                       andThen (Content grandchild source)
                         (\<lambda>name. Returned (names @ [name], hasDefault))
                   | None \<Rightarrow> Returned (names, hasDefault))
                else if nodeType child = ''named_imports'' then
                  andThen (extractNamedImports child source names)
                    (\<lambda>names'. Returned (names', hasDefault))
                else Returned (names, hasDefault))
             ([], False) (children node)"

definition extractImportStatement :: "Env \<Rightarrow> Node \<Rightarrow> string \<Rightarrow> File \<Rightarrow> File outcome" where
  "extractImportStatement env node source file =
     andThen
       (forEach (\<lambda>(p, ns, d) child.
                   if nodeType child = ''string'' then
                     andThen (Content child source)
                       (\<lambda>pathStr. Returned (Trim pathStr [CHR 0x22, CHR 0x27], ns, d))
                   else if nodeType child = ''import_clause'' then
                     andThen (extractImportClause child source)
                       (\<lambda>(ns', d'). Returned (p, ns', d'))
                   else Returned (p, ns, d))
                ([], [], False) (children node))
       (\<lambda>(importPath, importedNames, hasDefault).
          Returned
            (if importPath \<noteq> [] then
               let importType = Classify env importPath
               in if importedNames = [] then
                    file\<lparr>Imports := Imports file @
                      [\<lparr>Path = importPath, ImportedName = [], Type = importType,
                        IsDefault = False\<rparr>]\<rparr>
                  else
                    file\<lparr>Imports := Imports file @
                      map (\<lambda>name. \<lparr>Path = importPath, ImportedName = name, Type = importType,
                                   IsDefault = (hasDefault \<and> name = hd importedNames)\<rparr>)
                          importedNames\<rparr>
             else file))"

text \<open>\<^verbatim>\<open>checkForDefaultExport\<close> reads the text of the node from the buffer \<^verbatim>\<open>nil\<close>.\<close>

definition checkForDefaultExport :: "Node \<Rightarrow> File \<Rightarrow> File outcome" where
  "checkForDefaultExport node file =
     andThen (Content node [])
       (\<lambda>nodeText. Returned (if Contains nodeText ''default''
                              then file\<lparr>HasDefault := True\<rparr> else file))"

fun extractImportsAndExports :: "Env \<Rightarrow> Node \<Rightarrow> string \<Rightarrow> File \<Rightarrow> File outcome"
  and extractChildren :: "Env \<Rightarrow> Node list \<Rightarrow> string \<Rightarrow> File \<Rightarrow> File outcome" where
  "extractImportsAndExports env (Node ty sb eb cs) source file =
     extractChildren env cs source file"
| "extractChildren env [] source file = Returned file"
| "extractChildren env (child # rest) source file =
     (case (if nodeType child = ''import_statement'' then
              extractImportStatement env child source file
            else if nodeType child = ''export_statement'' then
              checkForDefaultExport child file
            else extractImportsAndExports env child source file) of
        Returned file' \<Rightarrow> extractChildren env rest source file'
      | Panicked msg \<Rightarrow> Panicked msg)"

definition languageFor :: "string \<Rightarrow> Lang" where
  "languageFor ext =
     (if ext = ''.ts'' then TypeScript
      else if ext = ''.tsx'' then TSX
      else JavaScript)"

definition parseFile :: "Env \<Rightarrow> string \<Rightarrow> string \<Rightarrow> (error + File) outcome" where
  "parseFile env dir filename =
     (let filePath = Join [dir, filename]
      in case ReadFile env filePath of
           Inl err \<Rightarrow> Returned (Inl (ReadingFile err))
         | Inr content \<Rightarrow>
             let ext = ToLower (Ext filename)
             in (case ParseCtx env (languageFor ext) content of
                   Inl err \<Rightarrow> Returned (Inl (ParsingLang ext err))
                 | Inr rootNode \<Rightarrow>
                     let file = \<lparr>Name = inferPackageName dir, FileName = filename,
                                 Imports = [], FileType = classifyFileType filename content,
                                 HasDefault = False\<rparr>
                     in andThen (extractImportsAndExports env rootNode content file)
                          (\<lambda>file'. Returned (Inr file'))))"

text \<open>
  The loop of \<^verbatim>\<open>ImportDir\<close> over the directory's entries, with the map built so far.
  A file for which \<^verbatim>\<open>parseFile\<close> returns an error ends the loop with that error.
\<close>

fun importEntries ::
  "Env \<Rightarrow> string \<Rightarrow> DirEntry list \<Rightarrow> (string \<rightharpoonup> File) \<Rightarrow> (error + (string \<rightharpoonup> File)) outcome" where
  "importEntries env dir [] ret = Returned (Inr ret)"
| "importEntries env dir (info # rest) ret =
     (if \<not> isRegular info then importEntries env dir rest ret
      else if \<not> isJavaScriptFile (entryName info) then importEntries env dir rest ret
      else (case parseFile env dir (entryName info) of
              Returned (Inl err) \<Rightarrow> Returned (Inl (ParsingFile (entryName info) err))
            | Returned (Inr f) \<Rightarrow> importEntries env dir rest (ret(entryName info \<mapsto> f))
            | Panicked msg \<Rightarrow> Panicked msg))"

definition ImportDir :: "Env \<Rightarrow> string \<Rightarrow> (error + (string \<rightharpoonup> File)) outcome" where
  "ImportDir env dir =
     (case ReadDir env dir of
        Inl err \<Rightarrow> Returned (Inl err)
      | Inr files \<Rightarrow> importEntries env dir files Map.empty)"

section \<open>Auxiliary definitions\<close>

text \<open>
  The shape of the element list that \<^const>\<open>Clean\<close> builds: no element is empty,
  \<^verbatim>\<open>.\<close> or contains a separator, and \<^verbatim>\<open>..\<close> occurs only at the head of a path that
  is not rooted.
\<close>

fun dotsFirst :: "string list \<Rightarrow> bool" where
  "dotsFirst [] = True"
| "dotsFirst (e # es) = (if e = ''..'' then dotsFirst es else ''..'' \<notin> set es)"

definition goodElems :: "bool \<Rightarrow> string list \<Rightarrow> bool" where
  "goodElems rooted out =
     ((\<forall>e\<in>set out. e \<noteq> [] \<and> e \<noteq> ''.'' \<and> CHR ''/'' \<notin> set e) \<and>
      (rooted \<longrightarrow> ''..'' \<notin> set out) \<and> dotsFirst out)"

text \<open>
  A directory \<^verbatim>\<open>/pkg\<close> with three regular files. The files \<^verbatim>\<open>a.js\<close> and \<^verbatim>\<open>c.js\<close> are
  empty, and the parser returns the empty program for them; \<^verbatim>\<open>b.js\<close> is not readable.
\<close>

definition demoEntries :: "DirEntry list" where
  "demoEntries =
     [\<lparr>entryName = ''a.js'', isRegular = True\<rparr>,
      \<lparr>entryName = ''b.js'', isRegular = True\<rparr>,
      \<lparr>entryName = ''c.js'', isRegular = True\<rparr>]"

definition demoEnv :: Env where
  "demoEnv =
     \<lparr>ReadDir = (\<lambda>dir. Inr demoEntries),
      ReadFile = (\<lambda>p. if p = ''/pkg/b.js'' then Inl (OsError ''permission denied'') else Inr []),
      ParseCtx = (\<lambda>lang content. Inr (Node ''program'' 0 (length content) [])),
      Classify = classifyImportType_asset (IsNodeBuiltin [''fs'', ''path''])\<rparr>"

text \<open>
  A directory \<^verbatim>\<open>/pkg\<close> whose one file is \<^verbatim>\<open>export default 1\<close>, with the tree the
  parser returns for it.
\<close>

definition exportEnv :: Env where
  "exportEnv =
     \<lparr>ReadDir = (\<lambda>dir. Inr [\<lparr>entryName = ''a.js'', isRegular = True\<rparr>]),
      ReadFile = (\<lambda>p. Inr ''export default 1''),
      ParseCtx = (\<lambda>lang content.
                    Inr (Node ''program'' 0 16
                           [Node ''export_statement'' 0 16
                              [Node ''export'' 0 6 [], Node ''default'' 7 14 [],
                               Node ''number'' 15 16 []]])),
      Classify = classifyImportType_asset (IsNodeBuiltin [''fs'', ''path''])\<rparr>"

section \<open>Facts about strings and paths\<close>

lemma HasPrefix_iff: "HasPrefix s pre = (\<exists>r. s = pre @ r)"
  by (auto simp: HasPrefix_def) (metis append_take_drop_id)

text \<open>
  \<^const>\<open>Clean\<close> returns a path that it leaves as it is: the elements it keeps are
  split and joined back unchanged, and none of them is dropped or removes another.
\<close>

lemma splitSlash_no_slash: "CHR ''/'' \<notin> set e \<Longrightarrow> splitSlash e = [e]"
  by (induction e) auto

lemma splitSlash_elem_slash:
  "CHR ''/'' \<notin> set e \<Longrightarrow> splitSlash (e @ CHR ''/'' # rest) = e # splitSlash rest"
  by (induction e) auto

lemma splitSlash_joinSlash:
  "out \<noteq> [] \<Longrightarrow> \<forall>e\<in>set out. CHR ''/'' \<notin> set e \<Longrightarrow> splitSlash (joinSlash out) = out"
proof (induction out rule: joinSlash.induct)
  case 1
  then show ?case by simp
next
  case (2 e)
  then show ?case by (simp add: splitSlash_no_slash)
next
  case (3 e v va)
  then show ?case by (simp add: splitSlash_elem_slash)
qed

lemma set_splitSlash: "e \<in> set (splitSlash path) \<Longrightarrow> CHR ''/'' \<notin> set e"
  by (induction path arbitrary: e) (auto split: if_splits list.splits)

lemma dotsFirst_snoc: "dotsFirst acc \<Longrightarrow> e \<noteq> ''..'' \<Longrightarrow> dotsFirst (acc @ [e])"
  by (induction acc) auto

lemma dotsFirst_last: "dotsFirst acc \<Longrightarrow> acc \<noteq> [] \<Longrightarrow> last acc = ''..'' \<Longrightarrow> set acc \<subseteq> {''..''}"
proof (induction acc)
  case Nil
  then show ?case by simp
next
  case (Cons a acc)
  show ?case
  proof (cases "acc = []")
    case True
    then show ?thesis using Cons.prems by simp
  next
    case False
    then have l: "last acc = ''..''" using Cons.prems by simp
    then have "''..'' \<in> set acc" using False last_in_set [of acc] by simp
    then have "a = ''..''" "dotsFirst acc" using Cons.prems(1) by (auto split: if_splits)
    then show ?thesis using Cons.IH False l by simp
  qed
qed

lemma dotsFirst_all: "set acc \<subseteq> {''..''} \<Longrightarrow> dotsFirst (acc @ [''..''])"
  by (induction acc) auto

lemma dotsFirst_butlast: "dotsFirst acc \<Longrightarrow> dotsFirst (butlast acc)"
  by (induction acc) (auto dest: in_set_butlastD)

lemma dotsFirst_before: "dotsFirst (acc @ ''..'' # es) \<Longrightarrow> set acc \<subseteq> {''..''}"
  by (induction acc) (auto split: if_splits)

lemma goodElems_step:
  assumes "goodElems rooted acc" "CHR ''/'' \<notin> set e"
  shows "goodElems rooted (cleanStep rooted acc e)"
proof -
  consider "e = [] \<or> e = ''.''" | "e = ''..''" | "e \<noteq> []" "e \<noteq> ''.''" "e \<noteq> ''..''"
    by blast
  then show ?thesis
  proof cases
    case 1
    then show ?thesis using assms by (auto simp: cleanStep_def)
  next
    case 2
    show ?thesis
    proof (cases "acc \<noteq> [] \<and> last acc \<noteq> ''..''")
      case True
      then show ?thesis using assms 2
        by (auto simp: cleanStep_def goodElems_def dotsFirst_butlast dest: in_set_butlastD)
    next
      case False
      have "set acc \<subseteq> {''..''}"
      proof (cases "acc = []")
        case True
        then show ?thesis by simp
      next
        case ne: False
        then show ?thesis
          using False assms(1) dotsFirst_last [of acc] by (simp add: goodElems_def)
      qed
      then show ?thesis using assms 2 False
        by (auto simp: cleanStep_def goodElems_def dotsFirst_all)
    qed
  next
    case 3
    then show ?thesis using assms
      by (auto simp: cleanStep_def goodElems_def dotsFirst_snoc)
  qed
qed

lemma goodElems_foldl:
  "goodElems rooted acc \<Longrightarrow> \<forall>e\<in>set xs. CHR ''/'' \<notin> set e \<Longrightarrow>
   goodElems rooted (foldl (cleanStep rooted) acc xs)"
  by (induction xs arbitrary: acc) (auto simp: goodElems_step)

lemma foldl_cleanStep_good:
  "goodElems rooted (acc @ out) \<Longrightarrow> foldl (cleanStep rooted) acc out = acc @ out"
proof (induction out arbitrary: acc)
  case Nil
  then show ?case by simp
next
  case (Cons e es)
  have step: "cleanStep rooted acc e = acc @ [e]"
  proof (cases "e = ''..''")
    case True
    with Cons.prems have "set acc \<subseteq> {''..''}" "\<not> rooted"
      using dotsFirst_before [of acc es] by (auto simp: goodElems_def)
    then have "acc = [] \<or> last acc = ''..''"
      by (cases acc rule: rev_cases) auto
    then show ?thesis using True \<open>\<not> rooted\<close> by (auto simp: cleanStep_def)
  next
    case False
    then show ?thesis using Cons.prems by (auto simp: cleanStep_def goodElems_def)
  qed
  show ?case using Cons.IH [of "acc @ [e]"] Cons.prems step by simp
qed

lemma joinSlash_Nil_iff: "\<forall>e\<in>set out. e \<noteq> [] \<Longrightarrow> (joinSlash out = []) = (out = [])"
  by (induction out rule: joinSlash.induct) auto

lemma hd_joinSlash: "out \<noteq> [] \<Longrightarrow> hd out \<noteq> [] \<Longrightarrow> hd (joinSlash out) = hd (hd out)"
  by (induction out rule: joinSlash.induct) auto

lemma Clean_idem: "Clean (Clean path) = Clean path"
proof (cases "path = []")
  case True
  then show ?thesis by (simp add: Clean_def cleanStep_def)
next
  case False
  define rooted where "rooted = (hd path = CHR ''/'')"
  define out where "out = foldl (cleanStep rooted) [] (splitSlash path)"
  have good: "goodElems rooted out"
    unfolding out_def
    by (rule goodElems_foldl) (auto simp: goodElems_def dest: set_splitSlash)
  have again: "foldl (cleanStep r) [] out = out" if "r = rooted" for r
    using foldl_cleanStep_good [of rooted "[]" out] good that by simp
  have noslash: "\<forall>e\<in>set out. CHR ''/'' \<notin> set e" and nonempty: "\<forall>e\<in>set out. e \<noteq> []"
    using good by (auto simp: goodElems_def)
  show ?thesis
  proof (cases rooted)
    case True
    have r: "(hd path = CHR ''/'') = True" using True by (simp add: rooted_def)
    have o: "foldl (cleanStep True) [] (splitSlash path) = out" using True by (simp add: out_def)
    have c: "Clean path = CHR ''/'' # joinSlash out"
      using False by (simp add: Clean_def Let_def r o)
    have "foldl (cleanStep True) [] (splitSlash (CHR ''/'' # joinSlash out)) = out"
    proof (cases "out = []")
      case True
      then show ?thesis by (simp add: cleanStep_def)
    next
      case False
      then show ?thesis
        using splitSlash_joinSlash [OF False noslash] again [of True] \<open>rooted\<close>
        by (simp add: cleanStep_def)
    qed
    then show ?thesis by (simp add: c) (simp add: Clean_def)
  next
    case nr: False
    show ?thesis
    proof (cases "out = []")
      case True
      have r: "(hd path = CHR ''/'') = False" using nr by (simp add: rooted_def)
      have o: "foldl (cleanStep False) [] (splitSlash path) = out" using nr by (simp add: out_def)
      have "Clean path = ''.''"
        using False True by (simp add: Clean_def Let_def r o)
      then show ?thesis by (simp add: Clean_def cleanStep_def)
    next
      case ne: False
      have s: "joinSlash out \<noteq> []" using joinSlash_Nil_iff [OF nonempty] ne by simp
      have r: "(hd path = CHR ''/'') = False" using nr by (simp add: rooted_def)
      have o: "foldl (cleanStep False) [] (splitSlash path) = out" using nr by (simp add: out_def)
      have c: "Clean path = joinSlash out"
        using False s by (simp add: Clean_def Let_def r o)
      have h: "hd (joinSlash out) \<noteq> CHR ''/''"
        using hd_joinSlash [of out] ne nonempty noslash
        by (metis hd_in_set list.set_sel(1))
      show ?thesis
        using s h splitSlash_joinSlash [OF ne noslash] again [of False] nr
        by (simp add: c) (simp add: Clean_def)
    qed
  qed
qed

lemma tryExtensions_find:
  "tryExtensions st base exts =
     map_option (\<lambda>e. base @ e) (find (\<lambda>e. st (base @ e) = StatOK) exts)"
  by (induction exts) auto

lemma Clean_Join_pair: "p \<noteq> [] \<Longrightarrow> Clean (Join [d, p]) = Join [d, p]"
  by (auto simp: Join_def Clean_idem split: list.splits)

lemma isRelativePath_nonempty: "isRelativePath p \<Longrightarrow> p \<noteq> []"
  by (auto simp: isRelativePath_def HasPrefix_def)

lemma isRelativePath_cases:
  "isRelativePath p = (p = ''.'' \<or> p = ''..'' \<or> (\<exists>r. p = ''./'' @ r) \<or> (\<exists>r. p = ''../'' @ r))"
  by (auto simp: isRelativePath_def HasPrefix_iff)

lemma node_prefix_not_relative: "HasPrefix p ''node:'' \<Longrightarrow> \<not> isRelativePath p"
  by (auto simp: isRelativePath_cases HasPrefix_iff)

lemma relative_TrimPrefix: "isRelativePath p \<Longrightarrow> TrimPrefix p ''node:'' = p"
  using node_prefix_not_relative [of p] by (auto simp: TrimPrefix_def)

lemma relative_prefix_relative:
  assumes "isRelativePath p" and "p = b \<or> HasPrefix p (b @ ''/'')"
  shows "isRelativePath b"
proof -
  from assms(2) consider "p = b" | r where "p = b @ CHR ''/'' # r"
    by (auto simp: HasPrefix_iff)
  then show ?thesis
  proof cases
    case 1
    then show ?thesis using assms(1) by simp
  next
    case 2
    then show ?thesis using assms(1)
      by (auto simp: isRelativePath_cases append_eq_Cons_conv Cons_eq_append_conv)
  qed
qed

lemma IsNodeBuiltin_iff:
  "IsNodeBuiltin allow p =
     (\<exists>b\<in>set allow. TrimPrefix p ''node:'' = b \<or>
                     (\<exists>sub. TrimPrefix p ''node:'' = b @ ''/'' @ sub))"
  by (auto simp: IsNodeBuiltin_def Let_def list_ex_iff HasPrefix_iff)

lemma IsNodeBuiltin_relative:
  assumes "\<forall>b\<in>set allow. \<not> isRelativePath b" and "isRelativePath p"
  shows "\<not> IsNodeBuiltin allow p"
proof
  assume "IsNodeBuiltin allow p"
  then obtain b where b: "b \<in> set allow" "p = b \<or> HasPrefix p (b @ ''/'')"
    using relative_TrimPrefix [OF assms(2)] by (auto simp: IsNodeBuiltin_def Let_def list_ex_iff)
  then have "isRelativePath b" using relative_prefix_relative [OF assms(2)] by blast
  then show False using assms(1) b(1) by blast
qed

lemma IsNodeBuiltin_listed:
  assumes "b \<in> set allow" and "\<not> HasPrefix b ''node:''"
  shows "IsNodeBuiltin allow b \<and> IsNodeBuiltin allow (''node:'' @ b) \<and>
         IsNodeBuiltin allow (b @ ''/'' @ sub) \<and> IsNodeBuiltin allow (''node:'' @ b @ ''/'' @ sub)"
proof -
  have t1: "TrimPrefix b ''node:'' = b" using assms(2) by (simp add: TrimPrefix_def)
  have t2: "TrimPrefix (''node:'' @ x) ''node:'' = x" for x
    by (simp add: TrimPrefix_def HasPrefix_def)
  have np: "\<not> HasPrefix (b @ ''/'' @ sub) ''node:''"
    using assms(2) by (auto simp: HasPrefix_iff append_eq_append_conv2 append_eq_Cons_conv Cons_eq_append_conv)
  have t3: "TrimPrefix (b @ ''/'' @ sub) ''node:'' = b @ ''/'' @ sub"
    using np by (simp add: TrimPrefix_def)
  have "IsNodeBuiltin allow b" using assms(1) t1 by (auto simp: IsNodeBuiltin_iff)
  moreover have "IsNodeBuiltin allow (''node:'' @ b)"
    unfolding IsNodeBuiltin_iff t2 using assms(1) by blast
  moreover have "IsNodeBuiltin allow (b @ ''/'' @ sub)"
    unfolding IsNodeBuiltin_iff t3 using assms(1) by blast
  moreover have "IsNodeBuiltin allow (''node:'' @ b @ ''/'' @ sub)"
    unfolding IsNodeBuiltin_iff t2 using assms(1) by blast
  ultimately show ?thesis by simp
qed

text \<open>
  A file inside a directory that does not exist does not exist: on a tree, the search
  for an index file below a joined path that is absent finds nothing.
\<close>

lemma joinSlash_snoc: "out \<noteq> [] \<Longrightarrow> joinSlash (out @ [e]) = joinSlash out @ ''/'' @ e"
  by (induction out rule: joinSlash.induct) auto

lemma Clean_rooted_form:
  assumes "path \<noteq> []" and "hd path = CHR ''/''"
  shows "\<exists>out. goodElems True out \<and> Clean path = CHR ''/'' # joinSlash out"
proof -
  have "goodElems True (foldl (cleanStep True) [] (splitSlash path))"
    by (rule goodElems_foldl) (auto simp: goodElems_def dest: set_splitSlash)
  then show ?thesis using assms by (auto simp: Clean_def Let_def)
qed

lemma Clean_rooted_append:
  assumes "goodElems True out" and "e \<noteq> []" and "e \<noteq> ''.''" and "e \<noteq> ''..''"
    and "CHR ''/'' \<notin> set e"
  shows "Clean ((CHR ''/'' # joinSlash out) @ ''/'' @ e) = CHR ''/'' # joinSlash (out @ [e])"
proof -
  have good: "goodElems True ([] @ (out @ [e]))"
    using assms by (auto simp: goodElems_def dotsFirst_snoc)
  have noslash: "\<forall>x\<in>set (out @ [e]). CHR ''/'' \<notin> set x"
    using assms by (auto simp: goodElems_def)
  have fold: "foldl (cleanStep True) [] (out @ [e]) = out @ [e]"
    using foldl_cleanStep_good [OF good] by simp
  show ?thesis
  proof (cases "out = []")
    case True
    have "splitSlash (CHR ''/'' # CHR ''/'' # e) = [[], [], e]"
      using assms(5) by (simp add: splitSlash_no_slash)
    then show ?thesis using True assms(2-4)
      by (simp add: Clean_def cleanStep_def)
  next
    case False
    have j: "joinSlash out @ ''/'' @ e = joinSlash (out @ [e])"
      using False by (simp add: joinSlash_snoc)
    have sp: "splitSlash (joinSlash (out @ [e])) = out @ [e]"
      by (rule splitSlash_joinSlash) (use noslash in auto)
    have "(CHR ''/'' # joinSlash out) @ ''/'' @ e = CHR ''/'' # joinSlash (out @ [e])"
      using j by simp
    moreover have "Clean (CHR ''/'' # joinSlash (out @ [e])) = CHR ''/'' # joinSlash (out @ [e])"
      using sp fold by (simp add: Clean_def cleanStep_def)
    ultimately show ?thesis by simp
  qed
qed

lemma statTree_below_absent:
  assumes "statTree files p = StatNotExist" and "q \<noteq> []"
  shows "statTree files (p @ ''/'' @ q) \<noteq> StatOK"
proof
  assume ok: "statTree files (p @ ''/'' @ q) = StatOK"
  have nodir: "\<not> list_ex (\<lambda>f. HasPrefix f (p @ ''/'')) files"
    using assms(1) by (auto simp: statTree_def split: if_splits)
  from ok consider "p @ ''/'' @ q \<in> set files" | "p @ ''/'' @ q = ''/''"
    | "list_ex (\<lambda>f. HasPrefix f ((p @ ''/'' @ q) @ ''/'')) files"
    by (auto simp: statTree_def split: if_splits)
  then show False
  proof cases
    case 1
    then show ?thesis using nodir by (auto simp: list_ex_iff HasPrefix_iff)
  next
    case 2
    then show ?thesis using assms(2) by (auto simp: append_eq_Cons_conv)
  next
    case 3
    then show ?thesis using nodir by (auto simp: list_ex_iff HasPrefix_iff)
  qed
qed

lemma tryExtensions_absent:
  "\<forall>ext\<in>set exts. st (base @ ext) \<noteq> StatOK \<Longrightarrow> tryExtensions st base exts = None"
  by (induction exts) auto

lemma index_branch_dead:
  assumes "currentDir \<noteq> []" and "hd currentDir = CHR ''/''" and "isRelativePath importPath"
    and "statTree files (Join [currentDir, importPath]) = StatNotExist"
  shows "tryExtensions (statTree files) (Join [Join [currentDir, importPath], ''index'']) exts = None"
proof -
  let ?c = "Join [currentDir, importPath]"
  have ne: "importPath \<noteq> []" using assms(3) by (rule isRelativePath_nonempty)
  have c: "?c = Clean (currentDir @ ''/'' @ importPath)"
    using assms(1) by (simp add: Join_def)
  obtain out where out: "goodElems True out" "?c = CHR ''/'' # joinSlash out"
    using Clean_rooted_form [of "currentDir @ ''/'' @ importPath"] assms(1,2) c by auto
  have "out \<noteq> []"
  proof
    assume "out = []"
    then have "?c = ''/''" using out(2) by simp
    then show False using assms(4) by (simp add: statTree_def)
  qed
  have "Join [?c, ''index''] = Clean (?c @ ''/'' @ ''index'')"
    using out(2) by (simp add: Join_def)
  also have "\<dots> = CHR ''/'' # joinSlash (out @ [''index''])"
    unfolding out(2) by (rule Clean_rooted_append [OF out(1)]) simp_all
  also have "\<dots> = ?c @ ''/'' @ ''index''"
    using \<open>out \<noteq> []\<close> out(2) by (simp add: joinSlash_snoc)
  finally have idx: "Join [?c, ''index''] = ?c @ ''/'' @ ''index''" .
  have "\<forall>ext\<in>set exts. statTree files ((?c @ ''/'' @ ''index'') @ ext) \<noteq> StatOK"
    using statTree_below_absent [OF assms(4), of "''index'' @ ext" for ext] by simp
  then show ?thesis unfolding idx by (rule tryExtensions_absent)
qed

lemmas path_eval = Join_def Clean_def cleanStep_def Base_def Dir_def Ext_def lastElem_def
lemmas str_eval = HasPrefix_def HasSuffix_def TrimPrefix_def ToLower_def lowerByte_def

text \<open>
  The model of \<^verbatim>\<open>IsNodeBuiltin\<close> agrees with every row of \<^verbatim>\<open>TestIsNodeBuiltin\<close> once
  the allow-list holds the four modules the test expects to be builtin.
\<close>

lemma IsNodeBuiltin_test_table:
  "map (IsNodeBuiltin [''fs'', ''path'', ''crypto'', ''util''])
     [''fs'', ''path'', ''crypto'', ''node:fs'', ''node:path'', ''node:crypto'',
      ''fs/promises'', ''node:fs/promises'', ''path/posix'', ''util/types'',
      ''lodash'', ''react'', ''express'', ''@types/node'', ''@babel/core'',
      [], ''node:invalid'', ''f'', ''FS'']
   = [True, True, True, True, True, True, True, True, True, True,
      False, False, False, False, False, False, False, False, False]"
  by (simp add: IsNodeBuiltin_def str_eval)

section \<open>Facts about \<^verbatim>\<open>parseFile\<close> and the loop of \<^verbatim>\<open>ImportDir\<close>\<close>

text \<open>
  \<^verbatim>\<open>parseFile\<close> returns an error only when the file cannot be read or the call of the
  parser returns one. The tree is not searched for syntax errors.
\<close>

lemma parseFile_error_cases:
  assumes "parseFile env dir filename = Returned (Inl err)"
  shows "(\<exists>e. ReadFile env (Join [dir, filename]) = Inl e \<and> err = ReadingFile e) \<or>
         (\<exists>content e. ReadFile env (Join [dir, filename]) = Inr content \<and>
            ParseCtx env (languageFor (ToLower (Ext filename))) content = Inl e \<and>
            err = ParsingLang (ToLower (Ext filename)) e)"
  using assms
  by (auto simp: parseFile_def Let_def andThen_def split: sum.splits outcome.splits)

text \<open>
  Every export statement makes \<^verbatim>\<open>checkForDefaultExport\<close> panic, since it reads the text
  of the node from the empty buffer; the panic leaves \<^verbatim>\<open>parseFile\<close> and \<^verbatim>\<open>ImportDir\<close>.
\<close>

lemma checkForDefaultExport_panics:
  "0 < endByte node \<Longrightarrow> checkForDefaultExport node file = Panicked ''slice bounds out of range''"
  by (simp add: checkForDefaultExport_def Content_def andThen_def)

lemma parseFile_export_panics:
  "parseFile exportEnv ''/pkg'' ''a.js'' = Panicked ''slice bounds out of range''"
  by (simp add: parseFile_def exportEnv_def languageFor_def checkForDefaultExport_panics
      andThen_def path_eval str_eval)

lemma ImportDir_export_panics:
  "ImportDir exportEnv ''/pkg'' = Panicked ''slice bounds out of range''"
proof -
  have "ReadDir exportEnv ''/pkg'' = Inr [\<lparr>entryName = ''a.js'', isRegular = True\<rparr>]"
    by (simp add: exportEnv_def)
  moreover have "isJavaScriptFile ''a.js''" by (simp add: isJavaScriptFile_def path_eval)
  ultimately show ?thesis by (simp add: ImportDir_def parseFile_export_panics)
qed

text \<open>
  When every regular source file parses, the loop returns a map that holds them all.
\<close>

lemma importEntries_all_parse:
  assumes "\<forall>e\<in>set es. isRegular e \<and> isJavaScriptFile (entryName e) \<longrightarrow>
             (\<exists>f. parseFile env dir (entryName e) = Returned (Inr f))"
  shows "\<exists>m. importEntries env dir es ret = Returned (Inr m) \<and>
             dom m = dom ret \<union>
               {entryName e |e. e \<in> set es \<and> isRegular e \<and> isJavaScriptFile (entryName e)}"
  using assms
proof (induction es arbitrary: ret)
  case Nil
  then show ?case by simp
next
  case (Cons e es)
  have rest: "\<forall>x\<in>set es. isRegular x \<and> isJavaScriptFile (entryName x) \<longrightarrow>
            (\<exists>g. parseFile env dir (entryName x) = Returned (Inr g))"
    using Cons.prems by simp
  show ?case
  proof (cases "isRegular e \<and> isJavaScriptFile (entryName e)")
    case True
    then obtain f where f: "parseFile env dir (entryName e) = Returned (Inr f)"
      using Cons.prems by auto
    from Cons.IH [OF rest, of "ret(entryName e \<mapsto> f)"]
    obtain m where m: "importEntries env dir es (ret(entryName e \<mapsto> f)) = Returned (Inr m)"
      and d: "dom m = dom (ret(entryName e \<mapsto> f)) \<union>
                {entryName x |x. x \<in> set es \<and> isRegular x \<and> isJavaScriptFile (entryName x)}"
      by blast
    have "importEntries env dir (e # es) ret = Returned (Inr m)"
      using True f m by simp
    moreover have "dom m = dom ret \<union>
        {entryName x |x. x \<in> set (e # es) \<and> isRegular x \<and> isJavaScriptFile (entryName x)}"
      unfolding d using True by (simp only: dom_fun_upd option.simps) auto
    ultimately show ?thesis by blast
  next
    case False
    from Cons.IH [OF rest, of ret] False
    show ?thesis by auto
  qed
qed

text \<open>
  The first file for which \<^verbatim>\<open>parseFile\<close> returns an error ends the loop, whatever was
  collected.
\<close>

lemma importEntries_abort:
  assumes "\<forall>e\<in>set pre. isRegular e \<and> isJavaScriptFile (entryName e) \<longrightarrow>
             (\<exists>f. parseFile env dir (entryName e) = Returned (Inr f))"
    and "isRegular info" and "isJavaScriptFile (entryName info)"
    and "parseFile env dir (entryName info) = Returned (Inl err)"
  shows "importEntries env dir (pre @ info # post) ret =
           Returned (Inl (ParsingFile (entryName info) err))"
  using assms
proof (induction pre arbitrary: ret)
  case Nil
  then show ?case by simp
next
  case (Cons e pre)
  then show ?case by (cases "isRegular e \<and> isJavaScriptFile (entryName e)") auto
qed

section \<open>Import classification\<close>

text \<open>
  Claim C1, as the code has it. Every raw import path gets exactly one kind. In the
  revision of \<^verbatim>\<open>classifyImportType\<close> without the asset branch the kind is Relative,
  Builtin or External (\<^const>\<open>BareImport\<close>): Builtin when the builtin test holds, which
  for the allow-list is the case for a listed name, its \<^verbatim>\<open>node:\<close> form and their
  submodule forms, and for no path that is not of one of these forms, byte for byte;
  otherwise Relative when the path starts with \<^verbatim>\<open>./\<close> or \<^verbatim>\<open>../\<close> or is \<^verbatim>\<open>.\<close> or
  \<^verbatim>\<open>..\<close> (no relative path is builtin when no listed name is relative); otherwise
  External, so a \<^verbatim>\<open>node:\<close> name that is not listed is External. In the revision of
  \<^verbatim>\<open>import.go\<close> with the asset branch, builtin and relative paths are classified the
  same way, and a path that is neither is a fourth kind, Asset, when its extension is
  one of \<^verbatim>\<open>.css .scss .less .json .png .jpg .svg .gif\<close>, and External otherwise.
\<close>

theorem classifyImportType_kinds:
  "classifyImportType (IsNodeBuiltin allow) p \<in> {RelativeImport, BuiltinImport, BareImport} \<and>
   (IsNodeBuiltin allow p \<longrightarrow>
      classifyImportType (IsNodeBuiltin allow) p = BuiltinImport \<and>
      classifyImportType_asset (IsNodeBuiltin allow) p = BuiltinImport) \<and>
   (b \<in> set allow \<and> \<not> HasPrefix b ''node:'' \<longrightarrow>
      IsNodeBuiltin allow b \<and> IsNodeBuiltin allow (''node:'' @ b) \<and>
      IsNodeBuiltin allow (b @ ''/'' @ sub) \<and>
      IsNodeBuiltin allow (''node:'' @ b @ ''/'' @ sub)) \<and>
   (\<not> (\<exists>b\<in>set allow. TrimPrefix p ''node:'' = b \<or>
                        (\<exists>sub. TrimPrefix p ''node:'' = b @ ''/'' @ sub)) \<longrightarrow>
      \<not> IsNodeBuiltin allow p) \<and>
   (isRelativePath p \<and> \<not> IsNodeBuiltin allow p \<longrightarrow>
      classifyImportType (IsNodeBuiltin allow) p = RelativeImport \<and>
      classifyImportType_asset (IsNodeBuiltin allow) p = RelativeImport) \<and>
   (isRelativePath p \<and> (\<forall>b\<in>set allow. \<not> isRelativePath b) \<longrightarrow>
      classifyImportType (IsNodeBuiltin allow) p = RelativeImport \<and>
      classifyImportType_asset (IsNodeBuiltin allow) p = RelativeImport) \<and>
   (HasPrefix p ''node:'' \<and> \<not> IsNodeBuiltin allow p \<longrightarrow>
      classifyImportType (IsNodeBuiltin allow) p = BareImport) \<and>
   (\<not> isRelativePath p \<and> \<not> IsNodeBuiltin allow p \<longrightarrow>
      classifyImportType (IsNodeBuiltin allow) p = BareImport \<and>
      classifyImportType_asset (IsNodeBuiltin allow) p =
        (if Ext p \<in> {''.css'', ''.scss'', ''.less'', ''.json'', ''.png'', ''.jpg'', ''.svg'', ''.gif''}
         then AssetImport else BareImport))"
proof -
  have k: "classifyImportType (IsNodeBuiltin allow) p \<in> {RelativeImport, BuiltinImport, BareImport}"
    by (simp add: classifyImportType_def)
  have bi: "IsNodeBuiltin allow p \<longrightarrow>
      classifyImportType (IsNodeBuiltin allow) p = BuiltinImport \<and>
      classifyImportType_asset (IsNodeBuiltin allow) p = BuiltinImport"
    by (simp add: classifyImportType_def classifyImportType_asset_def)
  have listed: "b \<in> set allow \<and> \<not> HasPrefix b ''node:'' \<longrightarrow>
      IsNodeBuiltin allow b \<and> IsNodeBuiltin allow (''node:'' @ b) \<and>
      IsNodeBuiltin allow (b @ ''/'' @ sub) \<and>
      IsNodeBuiltin allow (''node:'' @ b @ ''/'' @ sub)"
    using IsNodeBuiltin_listed [where b = b and allow = allow and sub = sub] by blast
  have unlisted: "\<not> (\<exists>b\<in>set allow. TrimPrefix p ''node:'' = b \<or>
                        (\<exists>sub. TrimPrefix p ''node:'' = b @ ''/'' @ sub)) \<longrightarrow>
      \<not> IsNodeBuiltin allow p"
    by (simp only: IsNodeBuiltin_iff) blast
  have rel: "isRelativePath p \<and> \<not> IsNodeBuiltin allow p \<longrightarrow>
      classifyImportType (IsNodeBuiltin allow) p = RelativeImport \<and>
      classifyImportType_asset (IsNodeBuiltin allow) p = RelativeImport"
    by (simp add: classifyImportType_def classifyImportType_asset_def isRelativePath_def)
  have rel': "isRelativePath p \<and> (\<forall>b\<in>set allow. \<not> isRelativePath b) \<longrightarrow>
      classifyImportType (IsNodeBuiltin allow) p = RelativeImport \<and>
      classifyImportType_asset (IsNodeBuiltin allow) p = RelativeImport"
    using rel IsNodeBuiltin_relative [of allow p] by blast
  have other: "\<not> isRelativePath p \<and> \<not> IsNodeBuiltin allow p \<longrightarrow>
      classifyImportType (IsNodeBuiltin allow) p = BareImport \<and>
      classifyImportType_asset (IsNodeBuiltin allow) p =
        (if Ext p \<in> {''.css'', ''.scss'', ''.less'', ''.json'', ''.png'', ''.jpg'', ''.svg'', ''.gif''}
         then AssetImport else BareImport)"
    by (simp add: classifyImportType_def classifyImportType_asset_def isRelativePath_def Let_def)
  have node: "HasPrefix p ''node:'' \<and> \<not> IsNodeBuiltin allow p \<longrightarrow>
      classifyImportType (IsNodeBuiltin allow) p = BareImport"
    using other node_prefix_not_relative [of p] by blast
  show ?thesis using k bi listed unlisted rel rel' node other by blast
qed

text \<open>
  Claim C1 as stated fails on \<^verbatim>\<open>import.go\<close>: the bare path \<^verbatim>\<open>logo.png\<close> is none of
  Relative, Builtin, External there.
\<close>

theorem classifyImportType_kinds_counterexample:
  "classifyImportType_asset (IsNodeBuiltin [''fs'', ''path'', ''crypto'', ''util'']) ''logo.png''
     = AssetImport"
  by (simp add: classifyImportType_asset_def IsNodeBuiltin_def path_eval str_eval)

text \<open>
  The theorem of claim C1 at the allow-list \<^verbatim>\<open>fs, path, crypto, util\<close>: a submodule of
  a listed name, a relative path, an unlisted \<^verbatim>\<open>node:\<close> name, a name that differs from
  a listed one in case only, and a bare data file.
\<close>

theorem classifyImportType_kinds_witness:
  "''fs'' \<in> set [''fs'', ''path'', ''crypto'', ''util''] \<and> \<not> HasPrefix ''fs'' ''node:'' \<and>
   IsNodeBuiltin [''fs'', ''path'', ''crypto'', ''util''] ''node:fs/promises'' \<and>
   classifyImportType (IsNodeBuiltin [''fs'', ''path'', ''crypto'', ''util'']) ''node:fs/promises''
     = BuiltinImport \<and>
   isRelativePath ''./utils'' \<and>
   \<not> isRelativePath ''fs'' \<and> \<not> isRelativePath ''path'' \<and>
   \<not> isRelativePath ''crypto'' \<and> \<not> isRelativePath ''util'' \<and>
   classifyImportType (IsNodeBuiltin [''fs'', ''path'', ''crypto'', ''util'']) ''./utils''
     = RelativeImport \<and>
   HasPrefix ''node:invalid'' ''node:'' \<and>
   \<not> IsNodeBuiltin [''fs'', ''path'', ''crypto'', ''util''] ''node:invalid'' \<and>
   classifyImportType (IsNodeBuiltin [''fs'', ''path'', ''crypto'', ''util'']) ''node:invalid''
     = BareImport \<and>
   \<not> isRelativePath ''FS'' \<and> \<not> IsNodeBuiltin [''fs'', ''path'', ''crypto'', ''util''] ''FS'' \<and>
   classifyImportType (IsNodeBuiltin [''fs'', ''path'', ''crypto'', ''util'']) ''FS'' = BareImport \<and>
   \<not> isRelativePath ''data.json'' \<and>
   \<not> IsNodeBuiltin [''fs'', ''path'', ''crypto'', ''util''] ''data.json'' \<and>
   classifyImportType (IsNodeBuiltin [''fs'', ''path'', ''crypto'', ''util'']) ''data.json''
     = BareImport \<and>
   classifyImportType_asset (IsNodeBuiltin [''fs'', ''path'', ''crypto'', ''util'']) ''data.json''
     = AssetImport"
  using classifyImportType_kinds
          [of "[''fs'', ''path'', ''crypto'', ''util'']" "''node:fs/promises''" "''fs''" "''promises''"]
        classifyImportType_kinds
          [of "[''fs'', ''path'', ''crypto'', ''util'']" "''./utils''" "''fs''" "''promises''"]
        classifyImportType_kinds
          [of "[''fs'', ''path'', ''crypto'', ''util'']" "''node:invalid''" "''fs''" "''promises''"]
        classifyImportType_kinds
          [of "[''fs'', ''path'', ''crypto'', ''util'']" "''FS''" "''fs''" "''promises''"]
        classifyImportType_kinds
          [of "[''fs'', ''path'', ''crypto'', ''util'']" "''data.json''" "''fs''" "''promises''"]
  by (simp add: IsNodeBuiltin_def isRelativePath_def path_eval str_eval)

text \<open>
  Claim C4, as the code has it. A relative path with an asset suffix, such as
  \<^verbatim>\<open>./styles.css\<close>, is Relative in both revisions of \<^verbatim>\<open>classifyImportType\<close>. A bare
  path with an asset suffix, such as \<^verbatim>\<open>styles.css\<close>, is External in the revision without
  the asset branch, which never answers Asset; in the revision of \<^verbatim>\<open>import.go\<close> with
  the branch it is Asset when the extension is one of
  \<^verbatim>\<open>.css .scss .less .json .png .jpg .svg .gif\<close>, and External otherwise. The builtin
  test is arbitrary here.
\<close>

theorem asset_suffix_classification:
  "(isRelativePath p \<and> \<not> isBuiltin p \<longrightarrow>
      classifyImportType isBuiltin p = RelativeImport \<and>
      classifyImportType_asset isBuiltin p = RelativeImport) \<and>
   (\<not> isRelativePath p \<and> \<not> isBuiltin p \<longrightarrow> classifyImportType isBuiltin p = BareImport) \<and>
   classifyImportType isBuiltin p \<noteq> AssetImport \<and>
   (\<not> isRelativePath p \<and> \<not> isBuiltin p \<and>
    Ext p \<in> {''.css'', ''.scss'', ''.less'', ''.json'', ''.png'', ''.jpg'', ''.svg'', ''.gif''} \<longrightarrow>
      classifyImportType_asset isBuiltin p = AssetImport) \<and>
   (\<not> isRelativePath p \<and> \<not> isBuiltin p \<and>
    Ext p \<notin> {''.css'', ''.scss'', ''.less'', ''.json'', ''.png'', ''.jpg'', ''.svg'', ''.gif''} \<longrightarrow>
      classifyImportType_asset isBuiltin p = BareImport)"
  by (simp add: classifyImportType_def classifyImportType_asset_def isRelativePath_def Let_def)

text \<open>
  Claim C4 as stated fails on \<^verbatim>\<open>import.go\<close>: the bare path \<^verbatim>\<open>styles.css\<close> gets the
  fourth kind.
\<close>

theorem asset_suffix_counterexample:
  "classifyImportType_asset (IsNodeBuiltin [''fs'', ''path'', ''crypto'', ''util'']) ''styles.css''
     = AssetImport"
  by (simp add: classifyImportType_asset_def IsNodeBuiltin_def path_eval str_eval)

text \<open>
  The theorem of claim C4 at \<^verbatim>\<open>./styles.css\<close>, \<^verbatim>\<open>styles.css\<close> and \<^verbatim>\<open>lodash\<close>.
\<close>

theorem asset_suffix_classification_witness:
  "isRelativePath ''./styles.css'' \<and> \<not> IsNodeBuiltin [''fs'', ''path''] ''./styles.css'' \<and>
   classifyImportType (IsNodeBuiltin [''fs'', ''path'']) ''./styles.css'' = RelativeImport \<and>
   classifyImportType_asset (IsNodeBuiltin [''fs'', ''path'']) ''./styles.css'' = RelativeImport \<and>
   \<not> isRelativePath ''styles.css'' \<and> \<not> IsNodeBuiltin [''fs'', ''path''] ''styles.css'' \<and>
   Ext ''styles.css'' \<in> {''.css'', ''.scss'', ''.less'', ''.json'', ''.png'', ''.jpg'', ''.svg'', ''.gif''} \<and>
   classifyImportType (IsNodeBuiltin [''fs'', ''path'']) ''styles.css'' = BareImport \<and>
   classifyImportType_asset (IsNodeBuiltin [''fs'', ''path'']) ''styles.css'' = AssetImport \<and>
   \<not> isRelativePath ''lodash'' \<and> \<not> IsNodeBuiltin [''fs'', ''path''] ''lodash'' \<and>
   Ext ''lodash'' \<notin> {''.css'', ''.scss'', ''.less'', ''.json'', ''.png'', ''.jpg'', ''.svg'', ''.gif''} \<and>
   classifyImportType_asset (IsNodeBuiltin [''fs'', ''path'']) ''lodash'' = BareImport"
  using asset_suffix_classification [of "''./styles.css''" "IsNodeBuiltin [''fs'', ''path'']"]
        asset_suffix_classification [of "''styles.css''" "IsNodeBuiltin [''fs'', ''path'']"]
        asset_suffix_classification [of "''lodash''" "IsNodeBuiltin [''fs'', ''path'']"]
  by (simp add: IsNodeBuiltin_def isRelativePath_def path_eval str_eval)

section \<open>Resolution of relative imports\<close>

text \<open>
  Claim C2, by what \<^verbatim>\<open>os.Stat\<close> says of the joined path. For a relative import path
  and an importing directory, \<^verbatim>\<open>ResolveRelativeImport\<close> answers the joined path when
  \<^verbatim>\<open>os.Stat\<close> finds something there. When \<^verbatim>\<open>os.Stat\<close> reports that nothing exists
  there, it answers the joined path with the first extension of
  \<^verbatim>\<open>.js .ts .jsx .tsx .mjs .cjs\<close> for which a file exists; if there is none, the
  \<^verbatim>\<open>index\<close> file inside the joined path with the first such extension that exists;
  and if there is none either, the error that carries the raw import path and the
  searching directory. So far the claim. When \<^verbatim>\<open>os.Stat\<close> fails for another reason,
  as it does on a path that runs through a regular file, the joined path is the answer
  too, with no error, although nothing exists there: only the not-exist error starts
  the search. The joined path is \<^verbatim>\<open>filepath.Join\<close> of the two, which the later
  \<^verbatim>\<open>filepath.Clean\<close> does not change.
\<close>

theorem ResolveRelativeImport_relative:
  assumes "isRelativePath importPath"
  shows "let cleanPath = Join [currentDir, importPath];
             indexPath = Join [cleanPath, ''index''];
             exts = [''.js'', ''.ts'', ''.jsx'', ''.tsx'', ''.mjs'', ''.cjs''];
             res = ResolveRelativeImport st currentDir importPath
         in (st cleanPath = StatOK \<longrightarrow> res = Inr cleanPath) \<and>
            (st cleanPath = StatFailed \<longrightarrow> res = Inr cleanPath) \<and>
            (st cleanPath = StatNotExist \<longrightarrow>
               (case find (\<lambda>ext. st (cleanPath @ ext) = StatOK) exts of
                  Some ext \<Rightarrow> res = Inr (cleanPath @ ext)
                | None \<Rightarrow>
                    (case find (\<lambda>ext. st (indexPath @ ext) = StatOK) exts of
                       Some ext \<Rightarrow> res = Inr (indexPath @ ext)
                     | None \<Rightarrow> res = Inl (CouldNotResolve importPath currentDir))))"
proof -
  have ne: "importPath \<noteq> []" using assms by (rule isRelativePath_nonempty)
  have c: "Clean (Join [currentDir, importPath]) = Join [currentDir, importPath]"
    using ne by (rule Clean_Join_pair)
  have rel: "HasPrefix importPath ''./'' \<or> HasPrefix importPath ''../'' \<or>
             importPath = ''.'' \<or> importPath = ''..''"
    using assms by (simp add: isRelativePath_def)
  show ?thesis
    unfolding Let_def ResolveRelativeImport_def tryExtensions_find c
    using ne rel by (simp split: option.splits)
qed

text \<open>
  The theorem of claim C2 on trees below \<^verbatim>\<open>/project/src\<close>. With \<^verbatim>\<open>utils.ts\<close> a regular
  file, the import \<^verbatim>\<open>./utils.ts/x\<close> names nothing, \<^verbatim>\<open>os.Stat\<close> fails on it, and the
  path is returned as resolved; the import \<^verbatim>\<open>./utils\<close> is resolved to \<^verbatim>\<open>utils.ts\<close>.
  With a directory \<^verbatim>\<open>utils\<close> that holds \<^verbatim>\<open>index.js\<close> the answer is the directory, and
  with neither the import is not resolved.
\<close>

theorem ResolveRelativeImport_relative_witness:
  "isRelativePath ''./utils.ts/x'' \<and>
   statTree [''/project/src/main.ts'', ''/project/src/utils.ts''] ''/project/src/utils.ts/x''
     = StatFailed \<and>
   ResolveRelativeImport (statTree [''/project/src/main.ts'', ''/project/src/utils.ts''])
     ''/project/src'' ''./utils.ts/x'' = Inr ''/project/src/utils.ts/x'' \<and>
   isRelativePath ''./utils'' \<and>
   statTree [''/project/src/main.ts'', ''/project/src/utils.ts''] ''/project/src/utils''
     = StatNotExist \<and>
   ResolveRelativeImport (statTree [''/project/src/main.ts'', ''/project/src/utils.ts''])
     ''/project/src'' ''./utils'' = Inr ''/project/src/utils.ts'' \<and>
   statTree [''/project/src/main.ts'', ''/project/src/utils/index.js''] ''/project/src/utils''
     = StatOK \<and>
   ResolveRelativeImport (statTree [''/project/src/main.ts'', ''/project/src/utils/index.js''])
     ''/project/src'' ''./utils'' = Inr ''/project/src/utils'' \<and>
   statTree [''/project/src/main.ts''] ''/project/src/utils'' = StatNotExist \<and>
   ResolveRelativeImport (statTree [''/project/src/main.ts''])
     ''/project/src'' ''./utils'' = Inl (CouldNotResolve ''./utils'' ''/project/src'')"
  using ResolveRelativeImport_relative
          [of "''./utils.ts/x''" "''/project/src''"
              "statTree [''/project/src/main.ts'', ''/project/src/utils.ts'']"]
        ResolveRelativeImport_relative
          [of "''./utils''" "''/project/src''"
              "statTree [''/project/src/main.ts'', ''/project/src/utils.ts'']"]
        ResolveRelativeImport_relative
          [of "''./utils''" "''/project/src''"
              "statTree [''/project/src/main.ts'', ''/project/src/utils/index.js'']"]
        ResolveRelativeImport_relative
          [of "''./utils''" "''/project/src''" "statTree [''/project/src/main.ts'']"]
  by (simp add: isRelativePath_def statTree_def path_eval str_eval Let_def)

text \<open>
  On a tree the search for an index file never succeeds, since it starts only when the
  joined path is absent: a directory that holds an index file is resolved to the
  directory itself.
\<close>

lemma ResolveRelativeImport_on_tree:
  assumes "currentDir \<noteq> []" and "hd currentDir = CHR ''/''" and "isRelativePath importPath"
  shows "ResolveRelativeImport (statTree files) currentDir importPath =
     (if statTree files (Join [currentDir, importPath]) \<noteq> StatNotExist
      then Inr (Join [currentDir, importPath])
      else (case find (\<lambda>ext. statTree files (Join [currentDir, importPath] @ ext) = StatOK)
                   [''.js'', ''.ts'', ''.jsx'', ''.tsx'', ''.mjs'', ''.cjs''] of
              Some ext \<Rightarrow> Inr (Join [currentDir, importPath] @ ext)
            | None \<Rightarrow> Inl (CouldNotResolve importPath currentDir)))"
proof -
  have ne: "importPath \<noteq> []" using assms(3) by (rule isRelativePath_nonempty)
  have c: "Clean (Join [currentDir, importPath]) = Join [currentDir, importPath]"
    using ne by (rule Clean_Join_pair)
  have rel: "HasPrefix importPath ''./'' \<or> HasPrefix importPath ''../'' \<or>
             importPath = ''.'' \<or> importPath = ''..''"
    using assms(3) by (simp add: isRelativePath_def)
  show ?thesis
  proof (cases "statTree files (Join [currentDir, importPath]) = StatNotExist")
    case True
    note dead = index_branch_dead [OF assms True]
    show ?thesis
      unfolding ResolveRelativeImport_def Let_def c dead
      using ne rel True by (simp add: tryExtensions_find split: option.splits)
  next
    case False
    then show ?thesis
      unfolding ResolveRelativeImport_def Let_def c using ne rel by simp
  qed
qed

text \<open>
  Claim C10. \<^verbatim>\<open>ResolveRelativeImport\<close> rejects the empty import path with the
  empty-path error and every non-empty path that is not relative with the
  not-a-relative-import error, whatever the file system holds.
\<close>

theorem ResolveRelativeImport_rejects:
  "ResolveRelativeImport st currentDir [] = Inl EmptyImportPath \<and>
   (importPath \<noteq> [] \<and> \<not> isRelativePath importPath \<longrightarrow>
      ResolveRelativeImport st currentDir importPath = Inl (NotRelativeImport importPath))"
  by (simp add: ResolveRelativeImport_def isRelativePath_def)

text \<open>
  The theorem of claim C10 at \<^verbatim>\<open>lodash\<close>, in a directory that even holds a file
  of that name.
\<close>

theorem ResolveRelativeImport_rejects_witness:
  "''lodash'' \<noteq> [] \<and> \<not> isRelativePath ''lodash'' \<and>
   ResolveRelativeImport (statOf [''/project/src/lodash'', ''/project/src/lodash.js''])
     ''/project/src'' ''lodash'' = Inl (NotRelativeImport ''lodash'')"
  using ResolveRelativeImport_rejects
    [of "statOf [''/project/src/lodash'', ''/project/src/lodash.js'']" "''/project/src''" "''lodash''"]
  by (simp add: isRelativePath_def str_eval)

section \<open>Parse failures in a directory\<close>

text \<open>
  An empty file is parsed to a file record without imports; a file that cannot be read
  is not.
\<close>

lemma demo_parse_a: "parseFile demoEnv ''/pkg'' ''a.js'' =
    Returned (Inr \<lparr>Name = ''pkg'', FileName = ''a.js'', Imports = [], FileType = Library,
                   HasDefault = False\<rparr>)"
  by (simp add: parseFile_def demoEnv_def languageFor_def inferPackageName_def
      classifyFileType_def andThen_def path_eval str_eval)

lemma demo_parse_b: "parseFile demoEnv ''/pkg'' ''b.js'' =
    Returned (Inl (ReadingFile (OsError ''permission denied'')))"
  by (simp add: parseFile_def demoEnv_def path_eval str_eval)

lemma demo_js: "isJavaScriptFile ''a.js''" "isJavaScriptFile ''b.js''"
  by (simp_all add: isJavaScriptFile_def path_eval)

text \<open>
  Claim C3, as the code has it. When \<^verbatim>\<open>parseFile\<close> returns an error for a regular
  JavaScript or TypeScript file of the directory, and the files listed before it were
  parsed, \<^verbatim>\<open>ImportDir\<close> returns that error, wrapped with the name of the file, and no
  results: the files parsed before are not returned and the files after it are not
  parsed. The error is one of reading the file or one returned by the call of the
  parser.
\<close>

theorem ImportDir_stops_at_failing_file:
  assumes "ReadDir env dir = Inr (pre @ info # post)"
    and "\<forall>e\<in>set pre. isRegular e \<and> isJavaScriptFile (entryName e) \<longrightarrow>
           (\<exists>f. parseFile env dir (entryName e) = Returned (Inr f))"
    and "isRegular info" and "isJavaScriptFile (entryName info)"
    and "parseFile env dir (entryName info) = Returned (Inl err)"
  shows "ImportDir env dir = Returned (Inl (ParsingFile (entryName info) err)) \<and>
         ((\<exists>e. ReadFile env (Join [dir, entryName info]) = Inl e \<and> err = ReadingFile e) \<or>
          (\<exists>content e. ReadFile env (Join [dir, entryName info]) = Inr content \<and>
             ParseCtx env (languageFor (ToLower (Ext (entryName info)))) content = Inl e \<and>
             err = ParsingLang (ToLower (Ext (entryName info))) e))"
  using assms(1) importEntries_abort [OF assms(2-5)] parseFile_error_cases [OF assms(5)]
  by (simp add: ImportDir_def)

text \<open>
  Claim C3 as stated fails: in \<^verbatim>\<open>/pkg\<close> the files \<^verbatim>\<open>a.js\<close> and \<^verbatim>\<open>c.js\<close> parse,
  \<^verbatim>\<open>b.js\<close> cannot be read, and \<^verbatim>\<open>ImportDir\<close> returns the error of \<^verbatim>\<open>b.js\<close> instead
  of the results of its siblings.
\<close>

theorem ImportDir_counterexample:
  "ImportDir demoEnv ''/pkg'' =
     Returned (Inl (ParsingFile ''b.js'' (ReadingFile (OsError ''permission denied''))))"
  by (simp add: ImportDir_def demoEnv_def [THEN arg_cong, of ReadDir] demoEntries_def
      demo_parse_a demo_parse_b demo_js)

text \<open>
  The theorem of claim C3 in the same directory.
\<close>

theorem ImportDir_stops_at_failing_file_witness:
  "ReadDir demoEnv ''/pkg'' =
     Inr ([\<lparr>entryName = ''a.js'', isRegular = True\<rparr>] @ \<lparr>entryName = ''b.js'', isRegular = True\<rparr> #
          [\<lparr>entryName = ''c.js'', isRegular = True\<rparr>]) \<and>
   (\<exists>f. parseFile demoEnv ''/pkg'' ''a.js'' = Returned (Inr f)) \<and>
   isJavaScriptFile ''b.js'' \<and>
   ReadFile demoEnv (Join [''/pkg'', ''b.js'']) = Inl (OsError ''permission denied'') \<and>
   parseFile demoEnv ''/pkg'' ''b.js'' =
     Returned (Inl (ReadingFile (OsError ''permission denied''))) \<and>
   ImportDir demoEnv ''/pkg'' =
     Returned (Inl (ParsingFile ''b.js'' (ReadingFile (OsError ''permission denied''))))"
proof -
  have rd: "ReadDir demoEnv ''/pkg'' =
     Inr ([\<lparr>entryName = ''a.js'', isRegular = True\<rparr>] @ \<lparr>entryName = ''b.js'', isRegular = True\<rparr> #
          [\<lparr>entryName = ''c.js'', isRegular = True\<rparr>])"
    by (simp add: demoEnv_def demoEntries_def)
  have pre: "\<forall>e\<in>set [\<lparr>entryName = ''a.js'', isRegular = True\<rparr>].
               isRegular e \<and> isJavaScriptFile (entryName e) \<longrightarrow>
               (\<exists>f. parseFile demoEnv ''/pkg'' (entryName e) = Returned (Inr f))"
    by (simp add: demo_parse_a)
  have rf: "ReadFile demoEnv (Join [''/pkg'', ''b.js'']) = Inl (OsError ''permission denied'')"
    by (simp add: demoEnv_def path_eval)
  have "ImportDir demoEnv ''/pkg'' =
     Returned (Inl (ParsingFile ''b.js'' (ReadingFile (OsError ''permission denied''))))"
    using ImportDir_stops_at_failing_file
            [OF rd pre, of "ReadingFile (OsError ''permission denied'')"]
    by (simp add: demo_js demo_parse_b)
  then show ?thesis using rd rf by (simp add: demo_parse_a demo_parse_b demo_js)
qed

section \<open>File roles\<close>

text \<open>
  Claim C5, at the names it gives. \<^verbatim>\<open>classifyFileType\<close> looks for \<^verbatim>\<open>.test.\<close>
  and \<^verbatim>\<open>.spec.\<close> anywhere in the lowered name, but for \<^verbatim>\<open>_test\<close> only as the
  endings \<^verbatim>\<open>_test.js\<close> and \<^verbatim>\<open>_test.ts\<close>: \<^verbatim>\<open>foo_test.tsx\<close> and \<^verbatim>\<open>foo_test.jsx\<close>
  are classified Library, while \<^verbatim>\<open>foo_test.ts\<close> and \<^verbatim>\<open>A.SPEC.mjs\<close> are Test.
\<close>

theorem classifyFileType_test_suffix:
  "classifyFileType ''foo_test.tsx'' [] = Library \<and>
   classifyFileType ''foo_test.jsx'' [] = Library \<and>
   classifyFileType ''foo_test.ts'' [] = Test \<and>
   classifyFileType ''A.SPEC.mjs'' [] = Test"
  by (simp add: classifyFileType_def str_eval)

text \<open>
  Claim C6, at the edge case it names. A file whose whole content is the two bytes
  \<^verbatim>\<open>#!\<close> is never Binary, because the length is compared with \<^verbatim>\<open>> 2\<close>; with one
  more byte after the shebang the file is Binary.
\<close>

theorem classifyFileType_bare_shebang:
  "classifyFileType ''run.js'' ''#!'' = Library \<and>
   classifyFileType filename ''#!'' \<noteq> Binary \<and>
   classifyFileType ''run.js'' ''#!/usr/bin/env node'' = Binary"
proof -
  have "classifyFileType filename ''#!'' \<noteq> Binary"
    by (simp add: classifyFileType_def Let_def)
  moreover have "classifyFileType ''run.js'' ''#!'' = Library"
    by (simp add: classifyFileType_def str_eval)
  moreover have "classifyFileType ''run.js'' ''#!/usr/bin/env node'' = Binary"
    by (simp add: classifyFileType_def str_eval)
  ultimately show ?thesis by simp
qed

section \<open>Resolution of dependencies\<close>

text \<open>
  An import that resolves to the empty target leaves the dependency set as it is,
  wherever it stands among the imports.
\<close>

lemma collectTargets_skips:
  "ResolveDependency st imp currentDir = Inr [] \<Longrightarrow>
   collectTargets st currentDir (pre @ imp # post) deps =
   collectTargets st currentDir (pre @ post) deps"
  by (induction pre arbitrary: deps) (auto split: sum.splits)

text \<open>
  Claim C7. For every import of kind Builtin, and so for every import that the
  classifier tags from a path that passes the builtin test, \<^verbatim>\<open>ResolveDependency\<close>
  returns the empty target and no error, and the import contributes no entry to the
  dependency set of the rule: the set of the builtin import alone is empty, and the set
  of any list of imports is the same with and without it.
\<close>

theorem ResolveDependency_builtin:
  "(Type imp = BuiltinImport \<longrightarrow>
      ResolveDependency st imp currentDir = Inr [] \<and>
      dependencySet st currentDir [imp] = [] \<and>
      dependencySet st currentDir (pre @ imp # post) = dependencySet st currentDir (pre @ post)) \<and>
   (isBuiltin p \<longrightarrow>
      ResolveDependency st
        \<lparr>Path = p, ImportedName = n, Type = classifyImportType isBuiltin p, IsDefault = d\<rparr>
        currentDir = Inr [] \<and>
      dependencySet st currentDir
        (pre @ \<lparr>Path = p, ImportedName = n, Type = classifyImportType isBuiltin p,
                IsDefault = d\<rparr> # post) = dependencySet st currentDir (pre @ post))"
proof -
  have a: "ResolveDependency st imp currentDir = Inr []" if "Type imp = BuiltinImport" for imp
    using that by simp
  have b: "Type \<lparr>Path = p, ImportedName = n, Type = classifyImportType isBuiltin p,
                 IsDefault = d\<rparr> = BuiltinImport" if "isBuiltin p"
    using that by (simp add: classifyImportType_def)
  have skip: "dependencySet st currentDir [i] = [] \<and>
              dependencySet st currentDir (pre @ i # post) = dependencySet st currentDir (pre @ post)"
    if r: "ResolveDependency st i currentDir = Inr []" for i
    using collectTargets_skips [OF r, of pre post "[]"] r by (simp add: dependencySet_def)
  have first: "Type imp = BuiltinImport \<longrightarrow>
      ResolveDependency st imp currentDir = Inr [] \<and>
      dependencySet st currentDir [imp] = [] \<and>
      dependencySet st currentDir (pre @ imp # post) = dependencySet st currentDir (pre @ post)"
    using a [of imp] skip [of imp] by blast
  have second: "isBuiltin p \<longrightarrow>
      ResolveDependency st
        \<lparr>Path = p, ImportedName = n, Type = classifyImportType isBuiltin p, IsDefault = d\<rparr>
        currentDir = Inr [] \<and>
      dependencySet st currentDir
        (pre @ \<lparr>Path = p, ImportedName = n, Type = classifyImportType isBuiltin p,
                IsDefault = d\<rparr> # post) = dependencySet st currentDir (pre @ post)"
    using a [OF b] skip [OF a [OF b]] by blast
  show ?thesis using first second by blast
qed

text \<open>
  The theorem of claim C7 at the import of \<^verbatim>\<open>fs\<close>, next to a relative import that
  resolves to the target of its directory.
\<close>

theorem ResolveDependency_builtin_witness:
  "Type \<lparr>Path = ''fs'', ImportedName = ''readFile'', Type = BuiltinImport, IsDefault = False\<rparr>
     = BuiltinImport \<and>
   ResolveDependency
     (statTree [''/project/src/BUILD'', ''/project/src/main.ts'', ''/project/src/utils.ts''])
     \<lparr>Path = ''fs'', ImportedName = ''readFile'', Type = BuiltinImport, IsDefault = False\<rparr>
     ''/project/src'' = Inr [] \<and>
   dependencySet
     (statTree [''/project/src/BUILD'', ''/project/src/main.ts'', ''/project/src/utils.ts''])
     ''/project/src''
     [\<lparr>Path = ''fs'', ImportedName = ''readFile'', Type = BuiltinImport, IsDefault = False\<rparr>]
     = [] \<and>
   dependencySet
     (statTree [''/project/src/BUILD'', ''/project/src/main.ts'', ''/project/src/utils.ts''])
     ''/project/src''
     ([\<lparr>Path = ''./utils'', ImportedName = ''u'', Type = RelativeImport, IsDefault = True\<rparr>] @
      \<lparr>Path = ''fs'', ImportedName = ''readFile'', Type = BuiltinImport, IsDefault = False\<rparr> # [])
     = [''//src''] \<and>
   IsNodeBuiltin [''fs'', ''path''] ''fs'' \<and>
   ResolveDependency
     (statTree [''/project/src/BUILD'', ''/project/src/main.ts'', ''/project/src/utils.ts''])
     \<lparr>Path = ''fs'', ImportedName = ''readFile'',
      Type = classifyImportType (IsNodeBuiltin [''fs'', ''path'']) ''fs'', IsDefault = False\<rparr>
     ''/project/src'' = Inr []"
proof -
  let ?st = "statTree [''/project/src/BUILD'', ''/project/src/main.ts'', ''/project/src/utils.ts'']"
  let ?fs = "\<lparr>Path = ''fs'', ImportedName = ''readFile'', Type = BuiltinImport, IsDefault = False\<rparr>"
  let ?u = "\<lparr>Path = ''./utils'', ImportedName = ''u'', Type = RelativeImport, IsDefault = True\<rparr>"
  have r: "ResolveRelativeImport ?st ''/project/src'' ''./utils'' = Inr ''/project/src/utils.ts''"
    by (simp add: ResolveRelativeImport_def statTree_def path_eval str_eval)
  have t: "FindPackageTarget ?st ''/project/src'' = Inr ''//src''"
    by (simp add: FindPackageTarget_def statTree_def path_eval str_eval)
  have d: "Dir ''/project/src/utils.ts'' = ''/project/src''"
    by (simp add: path_eval)
  have u: "dependencySet ?st ''/project/src'' [?u] = [''//src'']"
    by (simp add: dependencySet_def r t d HasSuffix_def)
  have b: "IsNodeBuiltin [''fs'', ''path''] ''fs''"
    by (simp add: IsNodeBuiltin_def str_eval)
  show ?thesis
    using ResolveDependency_builtin
      [of ?fs ?st "''/project/src''" "[?u]" "[]" "IsNodeBuiltin [''fs'', ''path'']" "''fs''"
          "''readFile''" False] u b
    by simp
qed

text \<open>
  Claim C8, as the code has it. For every import of kind External, and so for every
  import that the classifier tags from a path that is neither builtin nor relative,
  \<^verbatim>\<open>ResolveDependency\<close> returns no target but the error that says bare import
  resolution is not implemented, with the import path. No configuration and no override
  is consulted.
\<close>

theorem ResolveDependency_bare:
  "(Type imp = BareImport \<longrightarrow>
      ResolveDependency st imp currentDir = Inl (BareNotImplemented (Path imp))) \<and>
   (\<not> isBuiltin p \<and> \<not> isRelativePath p \<longrightarrow>
      ResolveDependency st
        \<lparr>Path = p, ImportedName = n, Type = classifyImportType isBuiltin p, IsDefault = d\<rparr>
        currentDir = Inl (BareNotImplemented p))"
  by (simp add: classifyImportType_def isRelativePath_def)

text \<open>
  Claim C8 as stated fails: for the External import \<^verbatim>\<open>lodash\<close> no dependency is
  produced.
\<close>

theorem ResolveDependency_bare_counterexample:
  "ResolveDependency (statOf [])
     \<lparr>Path = ''lodash'', ImportedName = ''debounce'', Type = BareImport, IsDefault = False\<rparr>
     ''/project/src'' = Inl (BareNotImplemented ''lodash'')"
  by simp

text \<open>
  The theorem of claim C8 at the import of \<^verbatim>\<open>left-pad\<close>.
\<close>

theorem ResolveDependency_bare_witness:
  "Type \<lparr>Path = ''left-pad'', ImportedName = ''leftPad'', Type = BareImport, IsDefault = True\<rparr>
     = BareImport \<and>
   ResolveDependency (statOf [''/project/third_party/js/BUILD''])
     \<lparr>Path = ''left-pad'', ImportedName = ''leftPad'', Type = BareImport, IsDefault = True\<rparr>
     ''/project/src'' = Inl (BareNotImplemented ''left-pad'') \<and>
   \<not> IsNodeBuiltin [''fs'', ''path''] ''left-pad'' \<and> \<not> isRelativePath ''left-pad'' \<and>
   ResolveDependency (statOf [''/project/third_party/js/BUILD''])
     \<lparr>Path = ''left-pad'', ImportedName = ''leftPad'',
      Type = classifyImportType (IsNodeBuiltin [''fs'', ''path'']) ''left-pad'', IsDefault = True\<rparr>
     ''/project/src'' = Inl (BareNotImplemented ''left-pad'')"
  using ResolveDependency_bare
    [of "\<lparr>Path = ''left-pad'', ImportedName = ''leftPad'', Type = BareImport, IsDefault = True\<rparr>"
        "statOf [''/project/third_party/js/BUILD'']" "''/project/src''"
        "IsNodeBuiltin [''fs'', ''path'']" "''left-pad''" "''leftPad''" True]
  by (simp add: IsNodeBuiltin_def isRelativePath_def str_eval)

text \<open>
  Claim C9, as the code has it. \<^verbatim>\<open>FindPackageTarget\<close> returns the empty target when
  \<^verbatim>\<open>os.Stat\<close> reports that the directory has no \<^verbatim>\<open>BUILD\<close> file, and \<^verbatim>\<open>//\<close> followed
  by the base name of the directory otherwise. So the target is the same in any two
  file systems in which the \<^verbatim>\<open>BUILD\<close> file is not reported absent.
\<close>

theorem FindPackageTarget_by_rule_file:
  "(st (Join [dir, ''BUILD'']) = StatNotExist \<longrightarrow> FindPackageTarget st dir = Inr []) \<and>
   (st (Join [dir, ''BUILD'']) \<noteq> StatNotExist \<longrightarrow>
      FindPackageTarget st dir = Inr (''//'' @ Base dir)) \<and>
   (st (Join [dir, ''BUILD'']) \<noteq> StatNotExist \<and> st' (Join [dir, ''BUILD'']) \<noteq> StatNotExist \<longrightarrow>
      FindPackageTarget st dir = FindPackageTarget st' dir)"
  by (simp add: FindPackageTarget_def)

text \<open>
  Claim C9 as stated fails: for \<^verbatim>\<open>/project/src\<close> the target with a \<^verbatim>\<open>BUILD\<close> file
  differs from the target without one.
\<close>

theorem FindPackageTarget_counterexample:
  "FindPackageTarget (statOf [''/project/src/BUILD'']) ''/project/src'' \<noteq>
   FindPackageTarget (statOf []) ''/project/src''"
  by (simp add: FindPackageTarget_def statOf_def path_eval)

text \<open>
  The theorem of claim C9 at \<^verbatim>\<open>/project/src\<close>, without a \<^verbatim>\<open>BUILD\<close> file and in two
  trees that have one.
\<close>

theorem FindPackageTarget_by_rule_file_witness:
  "statOf [] (Join [''/project/src'', ''BUILD'']) = StatNotExist \<and>
   FindPackageTarget (statOf []) ''/project/src'' = Inr [] \<and>
   statOf [''/project/src/BUILD''] (Join [''/project/src'', ''BUILD'']) \<noteq> StatNotExist \<and>
   statOf [''/project/src/BUILD'', ''/project/src/index.js''] (Join [''/project/src'', ''BUILD''])
     \<noteq> StatNotExist \<and>
   FindPackageTarget (statOf [''/project/src/BUILD'']) ''/project/src'' = Inr ''//src'' \<and>
   FindPackageTarget (statOf [''/project/src/BUILD'']) ''/project/src'' =
     FindPackageTarget (statOf [''/project/src/BUILD'', ''/project/src/index.js'']) ''/project/src''"
  using FindPackageTarget_by_rule_file [of "statOf []" "''/project/src''" "statOf []"]
        FindPackageTarget_by_rule_file
          [of "statOf [''/project/src/BUILD'']" "''/project/src''"
              "statOf [''/project/src/BUILD'', ''/project/src/index.js'']"]
  by (auto simp: statOf_def path_eval)

end
